theory Spec2Isabelle
  imports Complex_Main "HOL-Library.Word"
begin

section \<open>Data model of rislive.go\<close>

text \<open>
  Go's \<^verbatim>\<open>int32\<close> is a 32-bit word, a Go \<^verbatim>\<open>string\<close> is a byte sequence
  (\<^typ>\<open>string\<close>), a slice is a list, and a pointer that may be \<^verbatim>\<open>nil\<close> is an
  \<^typ>\<open>'a option\<close>. \<^verbatim>\<open>Timestamp float64\<close> is only stored, never computed on; it is
  kept as the real number it denotes. The fields \<^verbatim>\<open>Id\<close> and \<^verbatim>\<open>Type\<close> of
  \<^verbatim>\<open>RisMessageData\<close> carry a suffix, since record fields share one name space.
\<close>

type_synonym int32 = "32 word"

record RisFilter =
  AsPath :: "string list"
  InvalidTransitAS :: "string \<rightharpoonup> bool"
  Prefix :: "string list"

record RisLive =
  Filter :: "RisFilter option"

record RisAnnouncement =
  NextHop :: string
  Prefixes :: "string list"

record RisMessageData =
  Timestamp :: real
  Peer :: string
  PeerASN :: string
  Id_data :: string
  Host :: string
  Type_data :: string
  Path :: "int32 list"
  Community :: "int32 list list"
  Origin :: string
  Announcements :: "RisAnnouncement option list"
  Raw :: string

record RisMessage =
  Type :: string
  Data :: "RisMessageData option"

section \<open>The matchers\<close>

text \<open>
  \<^verbatim>\<open>func (r *RisMessageData) MatchASPath(c []string) bool { return false }\<close>
\<close>

definition MatchASPath :: "RisMessageData \<Rightarrow> string list \<Rightarrow> bool" where
  "MatchASPath r c = False"

text \<open>
  \<^verbatim>\<open>MatchPrefix\<close>: the outer loop ranges over the candidates \<^verbatim>\<open>cs\<close>, the inner
  loop over \<^verbatim>\<open>r.Prefixes\<close>; the first pair of equal strings returns \<^verbatim>\<open>true\<close>.
  The receiver is an announcement that exists (not a nil pointer).
\<close>

fun MatchPrefix_inner :: "string \<Rightarrow> string list \<Rightarrow> bool" where
  "MatchPrefix_inner c [] = False"
| "MatchPrefix_inner c (p # ps) = (if c = p then True else MatchPrefix_inner c ps)"

fun MatchPrefix_outer :: "string list \<Rightarrow> string list \<Rightarrow> bool" where
  "MatchPrefix_outer [] ps = False"
| "MatchPrefix_outer (c # cs) ps =
     (if MatchPrefix_inner c ps then True else MatchPrefix_outer cs ps)"

definition MatchPrefix :: "RisAnnouncement \<Rightarrow> string list \<Rightarrow> bool" where
  "MatchPrefix r cs = MatchPrefix_outer cs (Prefixes r)"

text \<open>
  Spec side, for stating the claims on CIDR text only: the address family a prefix text
  is written in (IPv6 text has a colon, dotted-quad IPv4 text has none), and a condition
  that every well-formed CIDR text meets: an address part, a slash and a decimal length,
  the address over the alphabet of its family. A text that fails it is malformed.
\<close>

definition spec_is_ipv6_text :: "string \<Rightarrow> bool" where
  "spec_is_ipv6_text s = (CHR '':'' \<in> set s)"

definition spec_cidr_alphabet_ok :: "string \<Rightarrow> bool" where
  "spec_cidr_alphabet_ok s =
     (let addr = takeWhile (\<lambda>c. c \<noteq> CHR ''/'') s;
          len = drop 1 (dropWhile (\<lambda>c. c \<noteq> CHR ''/'') s)
      in addr \<noteq> [] \<and> len \<noteq> [] \<and>
         list_all (\<lambda>c. c \<in> set ''0123456789'') len \<and>
         (if CHR '':'' \<in> set addr
          then list_all (\<lambda>c. c \<in> set ''0123456789abcdefABCDEF:.'') addr
          else list_all (\<lambda>c. c \<in> set ''0123456789.'') addr))"

section \<open>The ingestion loop\<close>

text \<open>
  \<^verbatim>\<open>Listen\<close> reads the flag \<^verbatim>\<open>*risFile\<close>, calls \<^verbatim>\<open>http.Get\<close> or
  \<^verbatim>\<open>ioutil.ReadFile\<close>, and writes lines to standard output. The environment holds
  what these give. A byte stream is modelled by what the JSON decoder makes of it: the
  results of the successive \<^verbatim>\<open>dec.Decode(&rm)\<close> calls, \<^verbatim>\<open>dec.More()\<close> being true
  while a result is left. A result is the error (its text) or none, with the content of
  \<^verbatim>\<open>rm\<close> after the call. A feed is a finite stream.
\<close>

datatype decode_result = Decoded RisMessage | DecodeFailed string RisMessage

record environment =
  risFile :: string
  http_Get :: "decode_result list option \<times> string option"
  ioutil_ReadFile :: "decode_result list \<times> string option"

text \<open>
  One constructor for each \<^verbatim>\<open>fmt.Printf\<close> of \<^verbatim>\<open>Listen\<close>, with its arguments:
  \<^verbatim>\<open>failed to connect to ris-live: %v\<close>, \<^verbatim>\<open>failed to read risFile(%v): %v\<close>,
  \<^verbatim>\<open>failed to decode json: %v\<close>, \<^verbatim>\<open>bad json content: %v\<close> and
  \<^verbatim>\<open>Message(%d): Peer/ASN -> %v/%v Prefix1: %v\<close>.
\<close>

datatype stdout_line =
    FailedToConnect string
  | FailedToReadRisFile string string
  | FailedToDecodeJson string
  | BadJsonContent RisMessage
  | MessageLine nat string string string

text \<open>
  \<^verbatim>\<open>Listen\<close> returns nothing; what it does is the lines it printed, and whether it
  returned or panicked on a nil pointer.
\<close>

datatype outcome = Returned "stdout_line list" | Panicked "stdout_line list"

text \<open>
  Lines 108 to 113: the first prefix of the first announcement, or the empty string.
  \<^verbatim>\<open>m.Announcements[0]\<close> is a pointer; reading \<^verbatim>\<open>.Prefixes\<close> through nil panics
  (\<^const>\<open>None\<close>).
\<close>

definition Prefix1 :: "RisMessageData \<Rightarrow> string option" where
  "Prefix1 m =
     (case Announcements m of
        [] \<Rightarrow> Some []
      | None # _ \<Rightarrow> None
      | Some a # _ \<Rightarrow> (case Prefixes a of [] \<Rightarrow> Some [] | p # _ \<Rightarrow> Some p))"

text \<open>
  The loop \<^verbatim>\<open>for dec.More() { ... }\<close>, with the counter \<^verbatim>\<open>i\<close> and the lines printed
  so far. \<^verbatim>\<open>m := rm.Data\<close> is a pointer; \<^verbatim>\<open>m.Announcements\<close> through nil panics.
  The counter is a Go \<^verbatim>\<open>int\<close> of 64 bits, which no feed exhausts; it is a natural
  number here.
\<close>

fun Listen_loop :: "nat \<Rightarrow> stdout_line list \<Rightarrow> decode_result list \<Rightarrow> outcome" where
  "Listen_loop i out [] = Returned out"
| "Listen_loop i out (DecodeFailed err rm # rest) =
     Returned (out @ [FailedToDecodeJson err, BadJsonContent rm])"
| "Listen_loop i out (Decoded rm # rest) =
     (case Data rm of
        None \<Rightarrow> Panicked out
      | Some m \<Rightarrow>
          (case Prefix1 m of
             None \<Rightarrow> Panicked out
           | Some prefix \<Rightarrow>
               Listen_loop (i + 1) (out @ [MessageLine i (Peer m) (PeerASN m) prefix]) rest))"

text \<open>
  \<^verbatim>\<open>http.Get\<close> gives \<^verbatim>\<open>(resp, err)\<close>; the error is printed and the code goes on to
  \<^verbatim>\<open>defer resp.Body.Close()\<close>, which reads \<^verbatim>\<open>resp.Body\<close> and panics when
  \<^verbatim>\<open>resp\<close> is nil. \<^verbatim>\<open>ioutil.ReadFile\<close> gives \<^verbatim>\<open>(fd, err)\<close>; the error is printed
  and \<^verbatim>\<open>fd\<close> (empty when the file could not be opened) is decoded all the same.
\<close>

definition Listen :: "environment \<Rightarrow> outcome" where
  "Listen env =
     (if length (risFile env) = 0 then
        (case http_Get env of
           (resp, err) \<Rightarrow>
             (let out = (case err of None \<Rightarrow> [] | Some e \<Rightarrow> [FailedToConnect e])
              in case resp of
                   None \<Rightarrow> Panicked out
                 | Some body \<Rightarrow> Listen_loop 0 out body))
      else
        (case ioutil_ReadFile env of
           (fd, err) \<Rightarrow>
             (let out = (case err of None \<Rightarrow> []
                         | Some e \<Rightarrow> [FailedToReadRisFile (risFile env) e])
              in Listen_loop 0 out fd)))"

text \<open>
  For stating the claims: the transport succeeds and hands the decoder the stream
  \<open>body\<close>; the content of \<^verbatim>\<open>rm\<close> after a call is well formed when it has its
  \<^verbatim>\<open>data\<close> object and every announcement is an object (no \<^verbatim>\<open>null\<close>).
\<close>

definition delivers :: "environment \<Rightarrow> decode_result list \<Rightarrow> bool" where
  "delivers env body =
     (if length (risFile env) = 0 then http_Get env = (Some body, None)
      else ioutil_ReadFile env = (body, None))"

definition well_formed :: "RisMessage \<Rightarrow> bool" where
  "well_formed rm =
     (case Data rm of None \<Rightarrow> False | Some m \<Rightarrow> None \<notin> set (Announcements m))"

text \<open>The record of the repository's test file \<^verbatim>\<open>testdata/1-msg\<close>.\<close>

definition rec_1msg :: RisMessageData where
  "rec_1msg = \<lparr>Timestamp = 1558620047.08, Peer = ''196.60.9.165'', PeerASN = ''57695'',
     Id_data = ''196.60.9.165-1558620047.08-11924763'', Host = ''rrc19'',
     Type_data = ''UPDATE'', Path = [57695, 37650],
     Community = [[57695, 12000], [57695, 12001]], Origin = ''igp'',
     Announcements = [Some \<lparr>NextHop = ''196.60.9.165'', Prefixes = [''196.50.70.0/24'']\<rparr>],
     Raw = ''FFFFFFFFFFFFFFFFFFFFFFFFFFFFFFFF003E02000000234001010040020A02020000E15F00009312400304C43C09A5E00808E15F2EE0E15F2EE118C43246''\<rparr>"

subsection \<open>The decoder's variable\<close>

text \<open>
  \<^verbatim>\<open>var rm RisMessage\<close> is declared once, before the loop, and every
  \<^verbatim>\<open>dec.Decode(&rm)\<close> writes into it. Go's \<^verbatim>\<open>encoding/json\<close> sets the fields whose
  keys the JSON object has and leaves the others as they are; \<^verbatim>\<open>null\<close> does nothing
  to a string or a number, and makes a pointer nil; an object for a pointer is decoded
  into the struct the pointer holds, or into a new zero struct when it is nil. So the
  content of \<^verbatim>\<open>rm\<close> after a call depends on the records before.

  A JSON record is given by its keys: \<^const>\<open>None\<close> for a key that is absent (or
  \<^verbatim>\<open>null\<close>, for a string or a number), the value otherwise; for a slice, \<^verbatim>\<open>null\<close>
  is the empty array. The records covered are those that decode without error, with
  arrays of plain values, and whose announcements are \<^verbatim>\<open>null\<close> or objects with both
  their keys: what a slice element keeps from an earlier record when a key is missing
  depends on the slice's backing array and is outside this model.
\<close>

record json_data =
  j_timestamp :: "real option"
  j_peer :: "string option"
  j_peer_asn :: "string option"
  j_id :: "string option"
  j_host :: "string option"
  j_type :: "string option"
  j_path :: "int32 list option"
  j_community :: "int32 list list option"
  j_origin :: "string option"
  j_announcements :: "RisAnnouncement option list option"
  j_raw :: "string option"

datatype json_data_key = DataAbsent | DataNull | DataObject json_data

record json_message =
  m_type :: "string option"
  m_data :: json_data_key

text \<open>The zero values of Go: what \<^verbatim>\<open>rm\<close> is before the first call, and a new struct.\<close>

definition RisMessageData_zero :: RisMessageData where
  "RisMessageData_zero = \<lparr>Timestamp = 0, Peer = [], PeerASN = [], Id_data = [], Host = [],
     Type_data = [], Path = [], Community = [], Origin = [], Announcements = [], Raw = []\<rparr>"

definition RisMessage_zero :: RisMessage where
  "RisMessage_zero = \<lparr>Type = [], Data = None\<rparr>"

text \<open>Decoding an object into a \<^verbatim>\<open>RisMessageData\<close> that already has content.\<close>

definition Decode_data :: "RisMessageData \<Rightarrow> json_data \<Rightarrow> RisMessageData" where
  "Decode_data m d =
     \<lparr>Timestamp = (case j_timestamp d of None \<Rightarrow> Timestamp m | Some v \<Rightarrow> v),
      Peer = (case j_peer d of None \<Rightarrow> Peer m | Some v \<Rightarrow> v),
      PeerASN = (case j_peer_asn d of None \<Rightarrow> PeerASN m | Some v \<Rightarrow> v),
      Id_data = (case j_id d of None \<Rightarrow> Id_data m | Some v \<Rightarrow> v),
      Host = (case j_host d of None \<Rightarrow> Host m | Some v \<Rightarrow> v),
      Type_data = (case j_type d of None \<Rightarrow> Type_data m | Some v \<Rightarrow> v),
      Path = (case j_path d of None \<Rightarrow> Path m | Some v \<Rightarrow> v),
      Community = (case j_community d of None \<Rightarrow> Community m | Some v \<Rightarrow> v),
      Origin = (case j_origin d of None \<Rightarrow> Origin m | Some v \<Rightarrow> v),
      Announcements = (case j_announcements d of None \<Rightarrow> Announcements m | Some v \<Rightarrow> v),
      Raw = (case j_raw d of None \<Rightarrow> Raw m | Some v \<Rightarrow> v)\<rparr>"

text \<open>\<^verbatim>\<open>dec.Decode(&rm)\<close> on a record: the content of \<^verbatim>\<open>rm\<close> after the call.\<close>

definition Decode :: "RisMessage \<Rightarrow> json_message \<Rightarrow> RisMessage" where
  "Decode rm j =
     \<lparr>Type = (case m_type j of None \<Rightarrow> Type rm | Some v \<Rightarrow> v),
      Data = (case m_data j of
                DataAbsent \<Rightarrow> Data rm
              | DataNull \<Rightarrow> None
              | DataObject d \<Rightarrow>
                  Some (Decode_data (case Data rm of None \<Rightarrow> RisMessageData_zero
                                     | Some m \<Rightarrow> m) d))\<rparr>"

text \<open>
  The results of the successive calls on a feed of records, from the content \<open>rm\<close>
  of the variable before the first of them.
\<close>

fun decode_feed :: "RisMessage \<Rightarrow> json_message list \<Rightarrow> decode_result list" where
  "decode_feed rm [] = []"
| "decode_feed rm (j # js) = Decoded (Decode rm j) # decode_feed (Decode rm j) js"


text \<open>
  Records for the examples: the one of \<^verbatim>\<open>testdata/1-msg\<close>, a withdrawal (no
  announcement, and only some of the keys), and the sixth of \<^verbatim>\<open>testdata/10-msg\<close>
  without its communities. A local file is read without error and holds the records.
\<close>

definition data_1msg :: json_data where
  "data_1msg = \<lparr>j_timestamp = Some 1558620047.08, j_peer = Some ''196.60.9.165'',
     j_peer_asn = Some ''57695'', j_id = Some ''196.60.9.165-1558620047.08-11924763'',
     j_host = Some ''rrc19'', j_type = Some ''UPDATE'', j_path = Some [57695, 37650],
     j_community = Some [[57695, 12000], [57695, 12001]], j_origin = Some ''igp'',
     j_announcements =
       Some [Some \<lparr>NextHop = ''196.60.9.165'', Prefixes = [''196.50.70.0/24'']\<rparr>],
     j_raw = Some ''FFFFFFFFFFFFFFFFFFFFFFFFFFFFFFFF003E02000000234001010040020A02020000E15F00009312400304C43C09A5E00808E15F2EE0E15F2EE118C43246''\<rparr>"

definition data_withdrawal :: json_data where
  "data_withdrawal = \<lparr>j_timestamp = Some 1558620047.09, j_peer = Some ''10.0.0.1'',
     j_peer_asn = Some ''65000'', j_id = None, j_host = None, j_type = None, j_path = None,
     j_community = None, j_origin = None, j_announcements = Some [], j_raw = None\<rparr>"


definition file_source :: "json_data list \<Rightarrow> environment" where
  "file_source ds = \<lparr>risFile = ''testdata/10-msg'', http_Get = (None, None),
     ioutil_ReadFile =
       (decode_feed RisMessage_zero
          (map (\<lambda>d. \<lparr>m_type = Some ''ris_message'', m_data = DataObject d\<rparr>) ds), None)\<rparr>"

section \<open>Path digestion and the transit-AS predicate\<close>

text \<open>
  Modelled from the spec: \<^verbatim>\<open>digestPath\<close> is called by the repository's tests and is
  not in its source files. The raw path is the spec's heterogeneous sequence: a leaf is a
  number or a word, an element is a leaf or an AS-set, a sequence of leaves that nests no
  further. A number is taken at its integer value (the fraction of the JSON encoding
  already cut off) and converted to 32 bits.
\<close>

datatype path_leaf = Number int | Word string

datatype path_element = Leaf path_leaf | ASSet "path_leaf list"

datatype digest_error = DigestError

text \<open>
  Modelled from the spec: the walk of \<^verbatim>\<open>digest\<close> over the leaves of one AS-set, left
  to right, appending to the sequence built so far; a word fails at once.
\<close>

fun digest_set :: "path_leaf list \<Rightarrow> int32 list \<Rightarrow> digest_error + int32 list" where
  "digest_set [] acc = Inr acc"
| "digest_set (Number n # ls) acc = digest_set ls (acc @ [word_of_int n])"
| "digest_set (Word w # ls) acc = Inl DigestError"

text \<open>
  Modelled from the spec: the walk of \<^verbatim>\<open>digest\<close> over the raw path, left to right. A
  number is appended, an AS-set is flattened one level in place, a word fails the whole
  record.
\<close>

fun digest_walk :: "path_element list \<Rightarrow> int32 list \<Rightarrow> digest_error + int32 list" where
  "digest_walk [] acc = Inr acc"
| "digest_walk (Leaf (Number n) # es) acc = digest_walk es (acc @ [word_of_int n])"
| "digest_walk (Leaf (Word w) # es) acc = Inl DigestError"
| "digest_walk (ASSet ls # es) acc =
     (case digest_set ls acc of
        Inl e \<Rightarrow> Inl e
      | Inr acc' \<Rightarrow> digest_walk es acc')"

text \<open>
  Modelled from the spec: \<^verbatim>\<open>digest(rawPath)\<close>, the ordered int32 sequence or
  \<^verbatim>\<open>DigestError\<close>. The result is the whole sequence or the error, never a part.
\<close>

definition digest :: "path_element list \<Rightarrow> digest_error + int32 list" where
  "digest rawPath = digest_walk rawPath []"

text \<open>
  For stating the claim: the leaves of a raw path in their order, whether a leaf is a
  word, and the 32-bit value of a number (the value given for a word is never used: the
  claim reads it only where no leaf is a word).
\<close>

fun leaves :: "path_element list \<Rightarrow> path_leaf list" where
  "leaves [] = []"
| "leaves (Leaf l # es) = l # leaves es"
| "leaves (ASSet ls # es) = ls @ leaves es"

fun is_word :: "path_leaf \<Rightarrow> bool" where
  "is_word (Word w) = True"
| "is_word (Number n) = False"

fun leaf_int32 :: "path_leaf \<Rightarrow> int32" where
  "leaf_int32 (Number n) = word_of_int n"
| "leaf_int32 (Word w) = 0"

text \<open>
  Modelled from the spec: the transit-AS predicate, called \<^verbatim>\<open>InvalidTransitAS\<close> by the
  repository's tests and not in its source files. The loop tests the elements of the
  digested path from index 1 on against the set.
\<close>

fun transit_scan :: "int32 list \<Rightarrow> int32 set \<Rightarrow> bool" where
  "transit_scan [] invalid = False"
| "transit_scan (a # as) invalid = (if a \<in> invalid then True else transit_scan as invalid)"

text \<open>
  Modelled from the spec: an empty set never matches; otherwise position 0 is skipped
  and the rest of the digested path is scanned.
\<close>

definition transitASMatch :: "int32 list \<Rightarrow> int32 set \<Rightarrow> bool" where
  "transitASMatch digestedPath invalidTransitAS =
     (if invalidTransitAS = {} then False
      else transit_scan (drop 1 digestedPath) invalidTransitAS)"

text \<open>The message of the repository's tests: path 1 to 8, origin 8.\<close>

definition msg01 :: RisMessageData where
  "msg01 = \<lparr>Timestamp = 0, Peer = [], PeerASN = [], Id_data = [], Host = [],
     Type_data = [], Path = [1, 2, 3, 4, 5, 6, 7, 8], Community = [], Origin = ''8'',
     Announcements = [], Raw = []\<rparr>"

section \<open>Properties of the matchers\<close>

lemma MatchPrefix_inner_iff: "MatchPrefix_inner c ps \<longleftrightarrow> c \<in> set ps"
  by (induction ps) auto

lemma MatchPrefix_outer_iff: "MatchPrefix_outer cs ps \<longleftrightarrow> set cs \<inter> set ps \<noteq> {}"
  by (induction cs) (auto simp: MatchPrefix_inner_iff)

lemma MatchPrefix_single:
  "MatchPrefix \<lparr>NextHop = h, Prefixes = [candidate]\<rparr> [container] \<longleftrightarrow> container = candidate"
  by (simp add: MatchPrefix_def)

subsection \<open>C1: prefix containment\<close>

text \<open>
  The containment check of one configured prefix (the container) against one announced
  prefix (the candidate) is \<^const>\<open>MatchPrefix\<close> on an announcement with the one
  prefix and a candidate list with the one container. C1 as stated fails: the claim has
  \<^verbatim>\<open>contains("192.168.0.0/16", "192.168.0.0/24")\<close> true, the code returns false,
  as its comment says (an exact match, no super/subnet matching).
\<close>

theorem C1_counterexample:
  "\<not> MatchPrefix \<lparr>NextHop = ''1.2.3.4'', Prefixes = [''192.168.0.0/24'']\<rparr> [''192.168.0.0/16'']"
  by (simp add: MatchPrefix_def)

text \<open>
  C1, amended: for every pair of CIDR strings the check returns true if and only if the
  two strings are identical; in particular it is false for
  \<^verbatim>\<open>("192.168.0.0/16", "197.168.0.0/16")\<close>, and false for every pair of which
  one text is IPv6 and the other IPv4.
\<close>

theorem C1_exact_text_match:
  "(MatchPrefix \<lparr>NextHop = h, Prefixes = [candidate]\<rparr> [container] \<longleftrightarrow> container = candidate)
   \<and> \<not> MatchPrefix \<lparr>NextHop = h, Prefixes = [''197.168.0.0/16'']\<rparr> [''192.168.0.0/16'']
   \<and> (spec_is_ipv6_text container \<noteq> spec_is_ipv6_text candidate \<longrightarrow>
        \<not> MatchPrefix \<lparr>NextHop = h, Prefixes = [candidate]\<rparr> [container])"
  by (auto simp: MatchPrefix_def)

theorem C1_exact_text_match_witness:
  "spec_is_ipv6_text ''2001:db8::/32'' \<noteq> spec_is_ipv6_text ''192.168.0.0/16''
   \<and> \<not> MatchPrefix \<lparr>NextHop = ''1.2.3.4'', Prefixes = [''192.168.0.0/16'']\<rparr> [''2001:db8::/32'']
   \<and> MatchPrefix \<lparr>NextHop = ''1.2.3.4'', Prefixes = [''192.168.0.0/16'']\<rparr> [''192.168.0.0/16'']"
proof -
  have f: "spec_is_ipv6_text ''2001:db8::/32'' \<noteq> spec_is_ipv6_text ''192.168.0.0/16''"
    by (simp add: spec_is_ipv6_text_def)
  from f show ?thesis
    using C1_exact_text_match [of "''1.2.3.4''" "''192.168.0.0/16''" "''2001:db8::/32''"]
      C1_exact_text_match [of "''1.2.3.4''" "''192.168.0.0/16''" "''192.168.0.0/16''"]
    by blast
qed

subsection \<open>C6: malformed CIDR text\<close>

text \<open>
  C6 as stated fails: \<^verbatim>\<open>192.b.0.0/16\<close> is malformed (the repository's tests call
  it improper), and the check of it against itself returns true. No text is parsed, so
  no parse failure can turn a match into a miss.
\<close>

theorem C6_counterexample:
  "\<not> spec_cidr_alphabet_ok ''192.b.0.0/16''
   \<and> MatchPrefix \<lparr>NextHop = ''1.2.3.4'', Prefixes = [''192.b.0.0/16'']\<rparr> [''192.b.0.0/16'']"
  by (simp add: MatchPrefix_def spec_cidr_alphabet_ok_def)

text \<open>
  C6, amended: for every pair of texts, malformed or not, the check returns a boolean and
  raises nothing; it returns false whenever the two texts differ, and true when they are
  the same text, malformed text included.
\<close>

theorem C6_differing_text_never_matches:
  "(container \<noteq> candidate \<longrightarrow>
      \<not> MatchPrefix \<lparr>NextHop = h, Prefixes = [candidate]\<rparr> [container])
   \<and> MatchPrefix \<lparr>NextHop = h, Prefixes = [container]\<rparr> [container]"
  by (simp add: MatchPrefix_def)

theorem C6_differing_text_never_matches_witness:
  "\<not> spec_cidr_alphabet_ok ''192.b.0.0/16'' \<and> ''192.b.0.0/16'' \<noteq> ''192.168.0.0/24''
   \<and> \<not> MatchPrefix \<lparr>NextHop = [], Prefixes = [''192.168.0.0/24'']\<rparr> [''192.b.0.0/16'']
   \<and> \<not> MatchPrefix \<lparr>NextHop = [], Prefixes = [''192.b.0.0/24'']\<rparr> [''192.168.0.0/16'']"
proof -
  have m: "\<not> spec_cidr_alphabet_ok ''192.b.0.0/16''"
    by (simp add: spec_cidr_alphabet_ok_def)
  have d1: "''192.b.0.0/16'' \<noteq> ''192.168.0.0/24''" by simp
  have d2: "''192.168.0.0/16'' \<noteq> ''192.b.0.0/24''" by simp
  from m d1 d2 show ?thesis
    using C6_differing_text_never_matches [of "''192.b.0.0/16''" "''192.168.0.0/24''" "[]"]
      C6_differing_text_never_matches [of "''192.168.0.0/16''" "''192.b.0.0/24''" "[]"]
    by blast
qed

subsection \<open>C9: what MatchPrefix computes\<close>

text \<open>
  C9: \<^const>\<open>MatchPrefix\<close> returns true if and only if some candidate string equals,
  as a string, some prefix string of the announcement. So it is false when either list
  is empty, it matches neither a subnet nor a supernet, and two identical malformed
  texts match.
\<close>

theorem C9_MatchPrefix_is_string_equality:
  "(MatchPrefix r cs \<longleftrightarrow> (\<exists>c\<in>set cs. \<exists>p\<in>set (Prefixes r). c = p))
   \<and> (cs = [] \<or> Prefixes r = [] \<longrightarrow> \<not> MatchPrefix r cs)
   \<and> \<not> MatchPrefix \<lparr>NextHop = h, Prefixes = [''192.168.0.0/24'']\<rparr> [''192.168.0.0/16'']
   \<and> \<not> MatchPrefix \<lparr>NextHop = h, Prefixes = [''192.168.0.0/16'']\<rparr> [''192.168.0.0/24'']
   \<and> (\<not> spec_cidr_alphabet_ok s \<longrightarrow> MatchPrefix \<lparr>NextHop = h, Prefixes = [s]\<rparr> [s])"
proof -
  have a: "MatchPrefix r cs \<longleftrightarrow> (\<exists>c\<in>set cs. \<exists>p\<in>set (Prefixes r). c = p)"
    unfolding MatchPrefix_def MatchPrefix_outer_iff by blast
  have b: "cs = [] \<or> Prefixes r = [] \<longrightarrow> \<not> MatchPrefix r cs"
    unfolding a by auto
  show ?thesis using a b by (simp add: MatchPrefix_single)
qed

theorem C9_MatchPrefix_is_string_equality_witness:
  "MatchPrefix \<lparr>NextHop = ''1.2.3.4'', Prefixes = [''192.168.0.0/16'', ''10.0.0.0/24'']\<rparr>
     [''192.168.0.0/16'', ''100.64.0.0/10'']
   \<and> \<not> MatchPrefix \<lparr>NextHop = ''1.2.3.4'', Prefixes = [''192.168.0.0/16'', ''10.0.0.0/24'']\<rparr> []
   \<and> \<not> MatchPrefix \<lparr>NextHop = ''1.2.3.4'', Prefixes = []\<rparr> [''192.168.0.0/16'']
   \<and> \<not> spec_cidr_alphabet_ok ''192.b.0.0/16''
   \<and> MatchPrefix \<lparr>NextHop = ''1.2.3.4'', Prefixes = [''192.b.0.0/16'']\<rparr> [''192.b.0.0/16'']"
proof -
  have m: "\<not> spec_cidr_alphabet_ok ''192.b.0.0/16''"
    by (simp add: spec_cidr_alphabet_ok_def)
  have e: "\<exists>c\<in>set [''192.168.0.0/16'', ''100.64.0.0/10''].
      \<exists>p\<in>set (Prefixes \<lparr>NextHop = ''1.2.3.4'', Prefixes = [''192.168.0.0/16'', ''10.0.0.0/24'']\<rparr>). c = p"
    by simp
  have 1: "MatchPrefix \<lparr>NextHop = ''1.2.3.4'', Prefixes = [''192.168.0.0/16'', ''10.0.0.0/24'']\<rparr>
     [''192.168.0.0/16'', ''100.64.0.0/10'']"
    using e C9_MatchPrefix_is_string_equality
      [of "\<lparr>NextHop = ''1.2.3.4'', Prefixes = [''192.168.0.0/16'', ''10.0.0.0/24'']\<rparr>"
          "[''192.168.0.0/16'', ''100.64.0.0/10'']"]
    by blast
  have 2: "\<not> MatchPrefix \<lparr>NextHop = ''1.2.3.4'', Prefixes = [''192.168.0.0/16'', ''10.0.0.0/24'']\<rparr> []"
    using C9_MatchPrefix_is_string_equality
      [of "\<lparr>NextHop = ''1.2.3.4'', Prefixes = [''192.168.0.0/16'', ''10.0.0.0/24'']\<rparr>" "[]"]
    by blast
  have 3: "\<not> MatchPrefix \<lparr>NextHop = ''1.2.3.4'', Prefixes = []\<rparr> [''192.168.0.0/16'']"
    using C9_MatchPrefix_is_string_equality
      [of "\<lparr>NextHop = ''1.2.3.4'', Prefixes = []\<rparr>" "[''192.168.0.0/16'']"]
    by simp
  have 4: "MatchPrefix \<lparr>NextHop = ''1.2.3.4'', Prefixes = [''192.b.0.0/16'']\<rparr> [''192.b.0.0/16'']"
    using m C9_MatchPrefix_is_string_equality [of _ _ "''1.2.3.4''" "''192.b.0.0/16''"]
    by blast
  from 1 2 3 4 m show ?thesis by blast
qed

subsection \<open>C2 and C10: the AS-path fragment\<close>

text \<open>
  C2: the claim has the predicate true for the empty fragment and for a fragment that
  occurs contiguously in the path. The code returns false on the path 1 to 8 for the
  fragments 3 and 3, 4, 5, which the repository's tests expect to match, and for the
  empty fragment.
\<close>

theorem C2_MatchASPath_misses_fragment:
  "Path msg01 = [1, 2, 3, 4, 5, 6, 7, 8] \<and> \<not> MatchASPath msg01 [''3'']
   \<and> \<not> MatchASPath msg01 [''3'', ''4'', ''5''] \<and> \<not> MatchASPath msg01 []"
  by (simp add: MatchASPath_def msg01_def)

text \<open>
  C10: for every message and every fragment list, \<^const>\<open>MatchASPath\<close> returns false.
\<close>

theorem C10_MatchASPath_always_false: "MatchASPath r c = False"
  by (simp add: MatchASPath_def)

section \<open>Properties of the ingestion loop\<close>

lemma Listen_delivers: "delivers env body \<Longrightarrow> Listen env = Listen_loop 0 [] body"
  by (auto simp: delivers_def Listen_def split: if_splits)

lemma well_formed_Prefix1:
  "well_formed rm \<Longrightarrow> \<exists>m prefix. Data rm = Some m \<and> Prefix1 m = Some prefix"
  by (auto simp: well_formed_def Prefix1_def split: option.splits list.splits)

lemma Listen_loop_well_formed:
  "\<forall>rm\<in>set feed. well_formed rm \<Longrightarrow>
   \<exists>lines. Listen_loop i out (map Decoded feed) = Returned (out @ lines)
     \<and> length lines = length feed
     \<and> (\<forall>k<length feed. \<exists>m prefix. Data (feed ! k) = Some m \<and> Prefix1 m = Some prefix
           \<and> lines ! k = MessageLine (i + k) (Peer m) (PeerASN m) prefix)"
proof (induction feed arbitrary: i out)
  case Nil
  then show ?case by simp
next
  case (Cons rm feed)
  from Cons.prems obtain m prefix where m: "Data rm = Some m" "Prefix1 m = Some prefix"
    using well_formed_Prefix1 [of rm] by auto
  from Cons.prems have "\<forall>x\<in>set feed. well_formed x" by simp
  from Cons.IH [OF this, of "i + 1" "out @ [MessageLine i (Peer m) (PeerASN m) prefix]"]
  obtain ls where ls:
    "Listen_loop (i + 1) (out @ [MessageLine i (Peer m) (PeerASN m) prefix]) (map Decoded feed)
       = Returned ((out @ [MessageLine i (Peer m) (PeerASN m) prefix]) @ ls)"
    "length ls = length feed"
    "\<forall>k<length feed. \<exists>m' prefix'. Data (feed ! k) = Some m' \<and> Prefix1 m' = Some prefix'
           \<and> ls ! k = MessageLine (i + 1 + k) (Peer m') (PeerASN m') prefix'"
    by blast
  let ?lines = "MessageLine i (Peer m) (PeerASN m) prefix # ls"
  have 1: "Listen_loop i out (map Decoded (rm # feed)) = Returned (out @ ?lines)"
    using m ls(1) by simp
  have 2: "length ?lines = length (rm # feed)" using ls(2) by simp
  have 3: "\<exists>m' prefix'. Data ((rm # feed) ! k) = Some m' \<and> Prefix1 m' = Some prefix'
           \<and> ?lines ! k = MessageLine (i + k) (Peer m') (PeerASN m') prefix'"
    if "k < length (rm # feed)" for k
  proof (cases k)
    case 0
    then show ?thesis using m by simp
  next
    case (Suc j)
    with that have "j < length feed" by simp
    with ls(3) Suc show ?thesis by simp
  qed
  from 1 2 3 show ?case by blast
qed





text \<open>
  What the one variable does to a record without its keys: a record with no
  \<^verbatim>\<open>announcements\<close> key is printed with the prefix of the record before it, and a
  record with no \<^verbatim>\<open>data\<close> key with all that the record before it had.
\<close>

lemma Listen_keeps_absent_keys:
  "Listen (file_source [data_1msg, data_withdrawal\<lparr>j_announcements := None\<rparr>])
     = Returned [MessageLine 0 ''196.60.9.165'' ''57695'' ''196.50.70.0/24'',
                 MessageLine 1 ''10.0.0.1'' ''65000'' ''196.50.70.0/24'']"
  by (simp add: Listen_def file_source_def Decode_def Decode_data_def Prefix1_def
      data_1msg_def data_withdrawal_def RisMessage_zero_def)

lemma Listen_keeps_absent_data:
  "Listen \<lparr>risFile = ''testdata/10-msg'', http_Get = (None, None),
      ioutil_ReadFile = (decode_feed RisMessage_zero
        [\<lparr>m_type = Some ''ris_message'', m_data = DataObject data_1msg\<rparr>,
         \<lparr>m_type = Some ''ris_message'', m_data = DataAbsent\<rparr>], None)\<rparr>
     = Returned [MessageLine 0 ''196.60.9.165'' ''57695'' ''196.50.70.0/24'',
                 MessageLine 1 ''196.60.9.165'' ''57695'' ''196.50.70.0/24'']"
  by (simp add: Listen_def Decode_def Decode_data_def Prefix1_def
      data_1msg_def RisMessage_zero_def)

lemma Listen_loop_decode_failure:
  "Listen_loop i out (map Decoded good) = Returned lines \<Longrightarrow>
   Listen_loop i out (map Decoded good @ DecodeFailed err rm # rest)
     = Returned (lines @ [FailedToDecodeJson err, BadJsonContent rm])"
proof (induction good arbitrary: i out)
  case Nil
  then show ?case by simp
next
  case (Cons x good)
  then show ?case by (auto split: option.splits)
qed

lemma Listen_loop_stops_at_failure:
  "Listen_loop i out (pre @ DecodeFailed err rm # rest)
     = Listen_loop i out (pre @ [DecodeFailed err rm])"
proof (induction pre arbitrary: i out)
  case Nil
  then show ?case by simp
next
  case (Cons x pre)
  then show ?case by (cases x) (auto split: option.splits)
qed

lemma Listen_read_failure_returns:
  "f \<noteq> [] \<Longrightarrow> Listen \<lparr>risFile = f, http_Get = g, ioutil_ReadFile = ([], Some e)\<rparr>
     = Returned [FailedToReadRisFile f e]"
  by (simp add: Listen_def)

subsection \<open>C3: one output per record\<close>




subsection \<open>C5: transport failure\<close>

text \<open>
  C5: the claim has the loop log a failed connection and end cleanly with zero records.
  With no \<^verbatim>\<open>risFile\<close>, when \<^verbatim>\<open>http.Get\<close> fails (no response, an error), the code
  prints the failure and then panics on the nil response. A failed read of a local file
  is printed and the loop returns, as \<open>Listen_read_failure_returns\<close> shows.
\<close>

theorem C5_connect_failure_panics:
  "Listen \<lparr>risFile = [], http_Get = (None, Some ''dial tcp: connection refused''),
      ioutil_ReadFile = ([], None)\<rparr>
     = Panicked [FailedToConnect ''dial tcp: connection refused'']"
  by (simp add: Listen_def)

subsection \<open>C8: a decode error ends the loop\<close>

text \<open>
  C8: when a record of the stream fails to decode, after well-formed records, the loop
  prints the lines of these records, reports the error (the error and the content of
  \<^verbatim>\<open>rm\<close>) and returns at once: whatever follows in the stream leaves no trace.
\<close>

theorem C8_decode_error_ends_the_loop:
  assumes "delivers env (map Decoded good @ DecodeFailed err rm # rest)"
    and "\<forall>x\<in>set good. well_formed x"
  shows "\<exists>lines. Listen_loop 0 [] (map Decoded good) = Returned lines
     \<and> length lines = length good
     \<and> Listen env = Returned (lines @ [FailedToDecodeJson err, BadJsonContent rm])"
proof -
  from Listen_loop_well_formed [OF assms(2), of 0 "[]"] obtain lines where
    l: "Listen_loop 0 [] (map Decoded good) = Returned lines" "length lines = length good"
    by auto
  from Listen_loop_decode_failure [OF l(1)] Listen_delivers [OF assms(1)]
  have "Listen env = Returned (lines @ [FailedToDecodeJson err, BadJsonContent rm])" by simp
  with l show ?thesis by blast
qed

theorem C8_decode_error_ends_the_loop_witness:
  "Listen \<lparr>risFile = ''testdata/1-msg'', http_Get = (None, None),
      ioutil_ReadFile = ([Decoded \<lparr>Type = ''ris_message'', Data = Some rec_1msg\<rparr>,
         DecodeFailed ''invalid character'' \<lparr>Type = ''ris_message'', Data = Some rec_1msg\<rparr>,
         Decoded \<lparr>Type = ''ris_message'', Data = Some rec_1msg\<rparr>], None)\<rparr>
   = Returned [MessageLine 0 ''196.60.9.165'' ''57695'' ''196.50.70.0/24'',
       FailedToDecodeJson ''invalid character'',
       BadJsonContent \<lparr>Type = ''ris_message'', Data = Some rec_1msg\<rparr>]"
proof -
  let ?rm = "\<lparr>Type = ''ris_message'', Data = Some rec_1msg\<rparr>"
  let ?env = "\<lparr>risFile = ''testdata/1-msg'', http_Get = (None, None),
      ioutil_ReadFile = ([Decoded ?rm, DecodeFailed ''invalid character'' ?rm, Decoded ?rm], None)\<rparr>"
  have d: "delivers ?env (map Decoded [?rm] @ DecodeFailed ''invalid character'' ?rm # [Decoded ?rm])"
    by (simp add: delivers_def)
  have w: "\<forall>x\<in>set [?rm]. well_formed x"
    by (simp add: well_formed_def rec_1msg_def)
  have g: "Listen_loop 0 [] (map Decoded [?rm])
      = Returned [MessageLine 0 ''196.60.9.165'' ''57695'' ''196.50.70.0/24'']"
    by (simp add: Prefix1_def rec_1msg_def)
  from C8_decode_error_ends_the_loop [OF d w] g show ?thesis by auto
qed

section \<open>Properties of path digestion and of the transit-AS predicate\<close>

lemma digest_set_eq:
  "digest_set ls acc =
     (if \<exists>l\<in>set ls. is_word l then Inl DigestError else Inr (acc @ map leaf_int32 ls))"
  by (induction ls acc rule: digest_set.induct) auto

lemma digest_walk_eq:
  "digest_walk es acc =
     (if \<exists>l\<in>set (leaves es). is_word l then Inl DigestError
      else Inr (acc @ map leaf_int32 (leaves es)))"
  by (induction es acc rule: digest_walk.induct) (auto simp: digest_set_eq)

lemma transit_scan_iff: "transit_scan xs invalid \<longleftrightarrow> (\<exists>x\<in>set xs. x \<in> invalid)"
  by (induction xs) auto

lemma set_drop_1: "x \<in> set (drop 1 p) \<longleftrightarrow> (\<exists>i. 0 < i \<and> i < length p \<and> p ! i = x)"
proof
  assume "x \<in> set (drop 1 p)"
  then obtain j where "j < length (drop 1 p)" "drop 1 p ! j = x"
    by (auto simp: in_set_conv_nth)
  then have "0 < Suc j \<and> Suc j < length p \<and> p ! Suc j = x" by auto
  then show "\<exists>i. 0 < i \<and> i < length p \<and> p ! i = x" by blast
next
  assume "\<exists>i. 0 < i \<and> i < length p \<and> p ! i = x"
  then obtain i where i: "0 < i" "i < length p" "p ! i = x" by blast
  then obtain j where j: "i = Suc j" by (cases i) auto
  with i have "j < length (drop 1 p)" "drop 1 p ! j = x" by auto
  then show "x \<in> set (drop 1 p)" by (auto simp: in_set_conv_nth)
qed

lemma transit_scan_drop_1:
  "transit_scan (drop 1 p) invalid \<longleftrightarrow> (\<exists>i. 0 < i \<and> i < length p \<and> p ! i \<in> invalid)"
proof
  assume "transit_scan (drop 1 p) invalid"
  then obtain x where x: "x \<in> set (drop 1 p)" "x \<in> invalid"
    unfolding transit_scan_iff by blast
  from x(1) obtain i where "0 < i" "i < length p" "p ! i = x"
    unfolding set_drop_1 by blast
  with x(2) show "\<exists>i. 0 < i \<and> i < length p \<and> p ! i \<in> invalid" by blast
next
  assume "\<exists>i. 0 < i \<and> i < length p \<and> p ! i \<in> invalid"
  then obtain i where i: "0 < i" "i < length p" "p ! i \<in> invalid" by blast
  then have "p ! i \<in> set (drop 1 p)" unfolding set_drop_1 by blast
  with i(3) show "transit_scan (drop 1 p) invalid"
    unfolding transit_scan_iff by blast
qed

subsection \<open>C4: path digestion\<close>

text \<open>
  C4: \<^const>\<open>digest\<close> walks the raw path left to right. If no leaf is a word, the
  result is the int32 sequence of all leaves in their order, each AS-set flattened one
  level in place; if any leaf is a word, the result is \<^const>\<open>DigestError\<close> alone, with
  no sequence. The spec's examples are the second and third conjunct.
\<close>

theorem C4_digest_flattens_one_level_or_fails:
  "digest rawPath =
     (if \<exists>l\<in>set (leaves rawPath). is_word l then Inl DigestError
      else Inr (map leaf_int32 (leaves rawPath)))
   \<and> digest [Leaf (Number 2497), Leaf (Number 6453), Leaf (Number 18705),
        Leaf (Number 26281), ASSet [Number 13340]] = Inr [2497, 6453, 18705, 26281, 13340]
   \<and> digest [Leaf (Word ''An''), Leaf (Word ''ASN''), Leaf (Word ''LIST''),
        Leaf (Word ''HERE'')] = Inl DigestError"
  by (simp add: digest_def digest_walk_eq)

subsection \<open>C7: the transit-AS predicate\<close>

text \<open>
  C7: the transit-AS predicate tests every element of the digested path except index 0.
  With the empty set it is false; with a non-empty set it is true if and only if the
  element at some index from 1 on is in the set.
\<close>

theorem C7_transit_predicate:
  "(invalid = {} \<longrightarrow> \<not> transitASMatch p invalid) \<and>
   (invalid \<noteq> {} \<longrightarrow>
      (transitASMatch p invalid \<longleftrightarrow> (\<exists>i. 0 < i \<and> i < length p \<and> p ! i \<in> invalid)))"
  unfolding transitASMatch_def transit_scan_drop_1 by simp

theorem C7_transit_predicate_witness:
  "{4 :: int32} \<noteq> {} \<and> transitASMatch [1, 2, 3, 4, 5, 6, 7, 8] {4}
   \<and> \<not> transitASMatch [1, 2, 3, 4, 5, 6, 7, 8] {}
   \<and> \<not> transitASMatch [4, 2, 3] {4}"
proof -
  have "(3::nat) < length [1, 2, 3, 4, 5, 6, 7, 8 :: int32] \<and> 0 < (3::nat)
      \<and> [1, 2, 3, 4, 5, 6, 7, 8 :: int32] ! 3 \<in> {4}"
    by simp
  then have a: "transitASMatch [1, 2, 3, 4, 5, 6, 7, 8] {4}"
    using C7_transit_predicate [of "{4}" "[1, 2, 3, 4, 5, 6, 7, 8]"] by blast
  have b: "\<not> transitASMatch [1, 2, 3, 4, 5, 6, 7, 8] {}"
    using C7_transit_predicate [of "{}" "[1, 2, 3, 4, 5, 6, 7, 8]"] by simp
  have "\<not> (\<exists>i. 0 < i \<and> i < length [4, 2, 3 :: int32] \<and> [4, 2, 3 :: int32] ! i \<in> {4})"
    by (auto simp: less_Suc_eq nth_Cons')
  then have c: "\<not> transitASMatch [4, 2, 3] {4}"
    using C7_transit_predicate [of "{4}" "[4, 2, 3]"] by simp
  from a b c show ?thesis by simp
qed

end
